theory Spec2Isabelle
  imports Complex_Main "HOL-Library.List_Lexorder" "HOL-Library.Char_ord"
begin

section \<open>Python values\<close>

text \<open>
  The configuration is what \<^verbatim>\<open>yaml.safe_load\<close> returns: \<^verbatim>\<open>None\<close>, booleans, integers,
  floats, strings, lists and mappings.  Mapping keys are strings, as in the configuration
  document; a mapping is an association list in insertion order (keys distinct), and a
  nested mapping is owned by the mapping that holds it.  Python floats are modelled as
  real numbers: rounding, infinities and NaN are outside the model (the one NaN the code
  can compute, the mean of an empty column, is written out as \<open>None\<close>).
\<close>

datatype pyval =
    PNone
  | PBool bool
  | PInt int
  | PFloat real
  | PStr string
  | PList "pyval list"
  | PDict "(string \<times> pyval) list"

type_synonym pydict = "(string \<times> pyval) list"

text \<open>
  \<^verbatim>\<open>DataQualityError\<close> carries kind, column, observed and threshold; an integer passed as
  observed or threshold (the row count) is read as its float value.  The message text of
  an exception is not modelled.
\<close>

datatype dq_error =
  DQError (kind: "string option") (column: "string option")
          (observed: "real option") (threshold: "real option")

datatype exn =
    SchemaDriftError (missing_columns: "pyval list")
  | DataQualityError dq_error
  | AttributeError
  | TypeError
  | ValueError
  | KeyError
  | IndexError

text \<open>The truth value of a Python object (\<^verbatim>\<open>not x\<close>, \<^verbatim>\<open>x or y\<close>).\<close>

fun py_truthy :: "pyval \<Rightarrow> bool" where
  "py_truthy PNone = False"
| "py_truthy (PBool b) = b"
| "py_truthy (PInt i) = (i \<noteq> 0)"
| "py_truthy (PFloat r) = (r \<noteq> 0)"
| "py_truthy (PStr s) = (s \<noteq> [])"
| "py_truthy (PList xs) = (xs \<noteq> [])"
| "py_truthy (PDict d) = (d \<noteq> [])"

text \<open>The numeric value of a bool, int or float; \<open>None\<close> for every other object.\<close>

fun py_num :: "pyval \<Rightarrow> real option" where
  "py_num (PBool b) = Some (if b then 1 else 0)"
| "py_num (PInt i) = Some (real_of_int i)"
| "py_num (PFloat r) = Some r"
| "py_num _ = None"

text \<open>
  Python's \<^verbatim>\<open>==\<close>: numbers compare by value across bool, int and float, lists
  element by element, mappings key by key whatever the order.
\<close>

fun py_eq :: "pyval \<Rightarrow> pyval \<Rightarrow> bool"
  and py_eq_list :: "pyval list \<Rightarrow> pyval list \<Rightarrow> bool"
  and py_eq_key :: "pyval \<Rightarrow> string \<Rightarrow> pydict \<Rightarrow> bool"
  and py_eq_items :: "pydict \<Rightarrow> pydict \<Rightarrow> bool"
where
  "py_eq PNone b = (b = PNone)"
| "py_eq (PStr s) b = (b = PStr s)"
| "py_eq (PList xs) (PList ys) = py_eq_list xs ys"
| "py_eq (PList xs) _ = False"
| "py_eq (PDict d) (PDict e) = (length d = length e \<and> py_eq_items d e)"
| "py_eq (PDict d) _ = False"
| "py_eq a b = (case py_num a of None \<Rightarrow> False | Some x \<Rightarrow> py_num b = Some x)"
| "py_eq_list [] ys = (ys = [])"
| "py_eq_list (x # xs) [] = False"
| "py_eq_list (x # xs) (y # ys) = (py_eq x y \<and> py_eq_list xs ys)"
| "py_eq_key v k [] = False"
| "py_eq_key v k ((k', w) # e) = (if k' = k then py_eq v w else py_eq_key v k e)"
| "py_eq_items [] e = True"
| "py_eq_items ((k, v) # d) e = (py_eq_key v k e \<and> py_eq_items d e)"

text \<open>\<^verbatim>\<open>hash(x)\<close> raises TypeError for lists and mappings.\<close>

fun py_hashable :: "pyval \<Rightarrow> bool" where
  "py_hashable (PList xs) = False"
| "py_hashable (PDict d) = False"
| "py_hashable _ = True"

subsection \<open>Mappings\<close>

text \<open>\<^verbatim>\<open>d.get(k, default)\<close> and \<^verbatim>\<open>d[k] = v\<close> on a mapping.\<close>

definition dict_get :: "pydict \<Rightarrow> string \<Rightarrow> pyval \<Rightarrow> pyval" where
  "dict_get d k dflt = (case map_of d k of None \<Rightarrow> dflt | Some v \<Rightarrow> v)"

fun dict_set :: "pydict \<Rightarrow> string \<Rightarrow> pyval \<Rightarrow> pydict" where
  "dict_set [] k v = [(k, v)]"
| "dict_set ((k', w) # d) k v = (if k' = k then (k, v) # d else (k', w) # dict_set d k v)"

text \<open>
  \<^verbatim>\<open>x.get(k, default)\<close> on an arbitrary object: only a mapping has the method.
  \<^verbatim>\<open>x[k]\<close> with a string key on a mapping raises KeyError when the key is absent.
\<close>

definition py_get :: "pyval \<Rightarrow> string \<Rightarrow> pyval \<Rightarrow> exn + pyval" where
  "py_get x k dflt = (case x of PDict d \<Rightarrow> Inr (dict_get d k dflt) | _ \<Rightarrow> Inl AttributeError)"

definition dict_item :: "pydict \<Rightarrow> string \<Rightarrow> exn + pyval" where
  "dict_item d k = (case map_of d k of None \<Rightarrow> Inl KeyError | Some v \<Rightarrow> Inr v)"

subsection \<open>Built-in conversions\<close>

text \<open>
  What the code uses and the repository does not define: the clock, the number parsers
  behind \<^verbatim>\<open>float(str)\<close> and \<^verbatim>\<open>int(str)\<close>, and the two pandas parsers.  They are
  parameters of the model.  A date is its day number (the proleptic ordinal);
  \<open>to_datetime\<close> gives \<open>None\<close> when pandas raises, and otherwise one day per cell
  (\<open>None\<close> for NaT).
\<close>

datatype cell = NA | Num real | Str string

record env =
  today :: int
  float_of_str :: "string \<Rightarrow> real option"
  int_of_str :: "string \<Rightarrow> int option"
  numeric_str :: "string \<Rightarrow> bool"
  to_datetime :: "cell list \<Rightarrow> int option list option"

fun py_float :: "env \<Rightarrow> pyval \<Rightarrow> exn + real" where
  "py_float env (PFloat r) = Inr r"
| "py_float env (PInt i) = Inr (real_of_int i)"
| "py_float env (PBool b) = Inr (if b then 1 else 0)"
| "py_float env (PStr s) = (case float_of_str env s of None \<Rightarrow> Inl ValueError | Some r \<Rightarrow> Inr r)"
| "py_float env _ = Inl TypeError"

fun py_int :: "env \<Rightarrow> pyval \<Rightarrow> exn + int" where
  "py_int env (PInt i) = Inr i"
| "py_int env (PBool b) = Inr (if b then 1 else 0)"
| "py_int env (PFloat r) = Inr (if r < 0 then \<lceil>r\<rceil> else \<lfloor>r\<rfloor>)"
| "py_int env (PStr s) = (case int_of_str env s of None \<Rightarrow> Inl ValueError | Some i \<Rightarrow> Inr i)"
| "py_int env _ = Inl TypeError"

text \<open>
  Iteration (\<^verbatim>\<open>list(x)\<close>, \<^verbatim>\<open>for c in x\<close>): a list gives its elements, a string its
  characters, a mapping its keys; nothing else is iterable.
\<close>

fun py_list :: "pyval \<Rightarrow> exn + pyval list" where
  "py_list (PList xs) = Inr xs"
| "py_list (PStr s) = Inr (map (\<lambda>c. PStr [c]) s)"
| "py_list (PDict d) = Inr (map (\<lambda>kv. PStr (fst kv)) d)"
| "py_list _ = Inl TypeError"

text \<open>\<^verbatim>\<open>x[0]\<close> on an object that tested true.\<close>

fun py_first :: "pyval \<Rightarrow> exn + pyval" where
  "py_first (PList (x # xs)) = Inr x"
| "py_first (PList []) = Inl IndexError"
| "py_first (PStr (c # cs)) = Inr (PStr [c])"
| "py_first (PStr []) = Inl IndexError"
| "py_first (PDict d) = Inl KeyError"
| "py_first _ = Inl TypeError"

section \<open>The causal log\<close>

text \<open>
  \<^verbatim>\<open>log_causal_event\<close> appends one record to an append-only file.  A function that
  logs returns the records it appends, in order.  A record is its event type and its
  details; the timestamp and the message strings are not modelled.  The source's function
  can raise (the file may not open, a value may not serialise); here the write is taken
  to succeed, so a statement about a call that returns carries over to the code, and no
  theorem below is about what a call that raises has left behind.
\<close>

datatype event = Event string pydict

definition log_causal_event :: "string \<Rightarrow> pydict \<Rightarrow> event list" where
  "log_causal_event event_type details = [Event event_type details]"

type_synonym 'a run = "event list \<times> (exn + 'a)"

text \<open>Statement after statement: the second runs only when the first did not raise.\<close>

definition then_run :: "unit run \<Rightarrow> 'a run \<Rightarrow> 'a run" where
  "then_run a b = (case snd a of Inl e \<Rightarrow> (fst a, Inl e) | Inr u \<Rightarrow> (fst a @ fst b, snd b))"

section \<open>The rule configuration\<close>

record DQConfig =
  max_null_fraction :: real
  min_row_count :: int
  required_columns :: "pyval list"
  unique_keys :: "pyval list"
  column_types :: pyval
  allowed_values :: pyval
  freshness_date_column :: pyval
  freshness_max_days_delay :: pyval

definition or_empty :: "pyval \<Rightarrow> pyval" where
  "or_empty v = (if py_truthy v then v else PDict [])"

text \<open>A call that may raise, followed by the rest of the block.\<close>

definition and_then :: "exn + 'a \<Rightarrow> ('a \<Rightarrow> exn + 'b) \<Rightarrow> exn + 'b" where
  "and_then m f = (case m of Inl e \<Rightarrow> Inl e | Inr x \<Rightarrow> f x)"

text \<open>
  \<^verbatim>\<open>build_dq_config\<close>, statement by statement; the first call that raises ends it.
\<close>

definition build_dq_config :: "env \<Rightarrow> pydict \<Rightarrow> exn + DQConfig" where
  "build_dq_config env config =
    (let dq = dict_get config ''data_quality'' (PDict []);
         schema = dict_get config ''schema'' (PDict [])
     in and_then (py_get dq ''max_null_fraction'' (PFloat 1)) (\<lambda>v1.
        and_then (py_float env v1) (\<lambda>mnf.
        and_then (py_get dq ''min_row_count'' (PInt 0)) (\<lambda>v2.
        and_then (py_int env v2) (\<lambda>mrc.
        and_then (py_get schema ''required_columns'' (PList [])) (\<lambda>v3.
        and_then (py_list v3) (\<lambda>rc.
        and_then (py_get dq ''unique_keys'' (PList [])) (\<lambda>v4.
        and_then (py_list v4) (\<lambda>uk.
        and_then (py_get schema ''column_types'' (PDict [])) (\<lambda>v5.
        (let ct = or_empty v5;
             av = or_empty (dict_get config ''allowed_values'' (PDict []));
             freshness_cfg = or_empty (dict_get config ''freshness'' (PDict []))
         in and_then (py_get freshness_cfg ''date_column'' PNone) (\<lambda>fdc.
            and_then (py_get freshness_cfg ''max_days_delay'' PNone) (\<lambda>fmd.
            Inr \<lparr> max_null_fraction = mnf, min_row_count = mrc, required_columns = rc,
                  unique_keys = uk, column_types = ct, allowed_values = av,
                  freshness_date_column = fdc, freshness_max_days_delay = fmd \<rparr>)))))))))))))"

section \<open>The dataset\<close>

text \<open>
  A DataFrame is its row count and its columns, each a label and the cells of the column
  (as many as there are rows); labels are strings and distinct.  A cell is missing, a
  float or a string.
\<close>

record dataframe =
  nrows :: nat
  cols :: "(string \<times> cell list) list"

text \<open>
  \<^verbatim>\<open>c in df.columns\<close> and then \<^verbatim>\<open>df[c]\<close>: the index hashes \<open>c\<close> first (TypeError for a
  list or a mapping), and only a string can be a label.
\<close>

fun find_column :: "dataframe \<Rightarrow> pyval \<Rightarrow> exn + (string \<times> cell list) option" where
  "find_column df (PStr s) = Inr (map_option (Pair s) (map_of (cols df) s))"
| "find_column df (PList xs) = Inl TypeError"
| "find_column df (PDict d) = Inl TypeError"
| "find_column df _ = Inr None"

text \<open>\<^verbatim>\<open>series.isna().mean()\<close>: the mean of an empty series is NaN, here \<open>None\<close>.\<close>

definition isna_mean :: "cell list \<Rightarrow> real option" where
  "isna_mean series =
    (if series = [] then None
     else Some (real (length (filter (\<lambda>c. c = NA) series)) / real (length series)))"

text \<open>\<^verbatim>\<open>series.duplicated().sum()\<close>: missing cells are duplicates of each other.\<close>

definition duplicated_sum :: "cell list \<Rightarrow> nat" where
  "duplicated_sum series = length series - length (remdups series)"

text \<open>
  \<^verbatim>\<open>pd.to_numeric(series, errors="raise")\<close> raises when a string cell is not a number;
  \<^verbatim>\<open>downcast\<close> changes the result only, and \<^verbatim>\<open>series.astype(str)\<close> never raises.
\<close>

definition to_numeric_raises :: "env \<Rightarrow> cell list \<Rightarrow> bool" where
  "to_numeric_raises env series =
    list_ex (\<lambda>c. case c of Str s \<Rightarrow> \<not> numeric_str env s | _ \<Rightarrow> False) series"

definition conversion_raises :: "env \<Rightarrow> pyval \<Rightarrow> cell list \<Rightarrow> bool" where
  "conversion_raises env expected_type series =
    (if expected_type = PStr ''float'' then to_numeric_raises env series
     else if expected_type = PStr ''int'' then to_numeric_raises env series
     else False)"

text \<open>The Python object a cell holds, for the log and for comparison with the allow-list.\<close>

fun cell_val :: "cell \<Rightarrow> pyval" where
  "cell_val NA = PNone"
| "cell_val (Num r) = PFloat r"
| "cell_val (Str s) = PStr s"

text \<open>\<^verbatim>\<open>set(x)\<close>: the elements of \<open>x\<close>, each of them hashed.\<close>

definition py_set :: "pyval \<Rightarrow> exn + pyval list" where
  "py_set x = and_then (py_list x)
     (\<lambda>xs. if list_all py_hashable xs then Inr xs else Inl TypeError)"

text \<open>\<^verbatim>\<open>sorted\<close> on cells: floats and strings do not compare with each other.\<close>

definition sorted_cells :: "cell list \<Rightarrow> exn + cell list" where
  "sorted_cells xs =
    (let nums = [r. Num r \<leftarrow> xs]; strs = [s. Str s \<leftarrow> xs]
     in if nums \<noteq> [] \<and> strs \<noteq> [] then Inl TypeError
        else Inr (map Num (sort nums) @ map Str (sort strs)))"

text \<open>\<^verbatim>\<open>dt_series.max()\<close>: the latest parsed day, NaT (here \<open>None\<close>) when there is none.\<close>

definition series_max :: "int option list \<Rightarrow> int option" where
  "series_max ds = (case [d. Some d \<leftarrow> ds] of [] \<Rightarrow> None | x # xs \<Rightarrow> Some (fold max xs x))"

section \<open>The rule checks\<close>

text \<open>An expression that may raise, before anything is logged.\<close>

definition eval_then :: "exn + 'a \<Rightarrow> ('a \<Rightarrow> 'b run) \<Rightarrow> 'b run" where
  "eval_then m f = (case m of Inl e \<Rightarrow> ([], Inl e) | Inr x \<Rightarrow> f x)"

definition passed :: "unit run" where
  "passed = ([], Inr ())"

definition check_row_count :: "dataframe \<Rightarrow> DQConfig \<Rightarrow> pyval \<Rightarrow> unit run" where
  "check_row_count df cfg pipeline_name =
    (if int (nrows df) < min_row_count cfg
     then (log_causal_event ''dq_failure''
             [(''pipeline_name'', pipeline_name), (''reason'', PStr ''row_count'')],
           Inl (DataQualityError (DQError (Some ''row_count'') None
                  (Some (real (nrows df))) (Some (real_of_int (min_row_count cfg))))))
     else passed)"

definition check_null_fraction :: "dataframe \<Rightarrow> DQConfig \<Rightarrow> pyval \<Rightarrow> unit run" where
  "check_null_fraction df cfg pipeline_name =
    (let col = ''sales_amount'' in
     case map_of (cols df) col of
       None \<Rightarrow> passed
     | Some series \<Rightarrow>
        (case isna_mean series of
           None \<Rightarrow> passed
         | Some null_frac \<Rightarrow>
            if null_frac > max_null_fraction cfg
            then (log_causal_event ''dq_failure''
                    [(''pipeline_name'', pipeline_name), (''reason'', PStr ''null_fraction''),
                     (''column'', PStr col), (''observed'', PFloat null_frac),
                     (''threshold'', PFloat (max_null_fraction cfg))],
                  Inl (DataQualityError (DQError (Some ''null_fraction'') (Some col)
                         (Some null_frac) (Some (max_null_fraction cfg)))))
            else passed))"

text \<open>The comprehension \<^verbatim>\<open>[c for c in cfg.required_columns if c not in df.columns]\<close>.\<close>

fun missing_of :: "dataframe \<Rightarrow> pyval list \<Rightarrow> exn + pyval list" where
  "missing_of df [] = Inr []"
| "missing_of df (c # cs) =
    and_then (find_column df c) (\<lambda>found.
    and_then (missing_of df cs) (\<lambda>ms.
    Inr (if found = None then c # ms else ms)))"

definition check_schema :: "dataframe \<Rightarrow> DQConfig \<Rightarrow> pyval \<Rightarrow> unit run" where
  "check_schema df cfg pipeline_name =
    eval_then (missing_of df (required_columns cfg)) (\<lambda>missing.
      if missing \<noteq> []
      then (log_causal_event ''schema_drift_detected''
              [(''pipeline_name'', pipeline_name), (''missing_columns'', PList missing)],
            Inl (SchemaDriftError missing))
      else passed)"

text \<open>The loop of \<^verbatim>\<open>_check_uniqueness\<close> over \<^verbatim>\<open>cfg.unique_keys\<close>.\<close>

fun uniqueness_loop :: "dataframe \<Rightarrow> pyval \<Rightarrow> pyval list \<Rightarrow> unit run" where
  "uniqueness_loop df pipeline_name [] = passed"
| "uniqueness_loop df pipeline_name (c # rest) =
    eval_then (find_column df c) (\<lambda>found.
      case found of
        None \<Rightarrow> uniqueness_loop df pipeline_name rest
      | Some (col, series) \<Rightarrow>
         (let dup_count = duplicated_sum series in
          if dup_count > 0
          then (log_causal_event ''dq_failure''
                  [(''pipeline_name'', pipeline_name), (''reason'', PStr ''uniqueness''),
                   (''column'', PStr col), (''duplicates'', PInt (int dup_count))],
                Inl (DataQualityError (DQError (Some ''uniqueness'') (Some col) None None)))
          else uniqueness_loop df pipeline_name rest))"

definition check_uniqueness :: "dataframe \<Rightarrow> DQConfig \<Rightarrow> pyval \<Rightarrow> unit run" where
  "check_uniqueness df cfg pipeline_name = uniqueness_loop df pipeline_name (unique_keys cfg)"

text \<open>
  The loop of \<^verbatim>\<open>_check_column_types\<close> over \<^verbatim>\<open>cfg.column_types.items()\<close>; whatever the
  conversion raises becomes a \<^verbatim>\<open>type_mismatch\<close> failure.
\<close>

fun column_types_loop :: "env \<Rightarrow> dataframe \<Rightarrow> pyval \<Rightarrow> pydict \<Rightarrow> unit run" where
  "column_types_loop env df pipeline_name [] = passed"
| "column_types_loop env df pipeline_name ((col, expected_type) # rest) =
    (case map_of (cols df) col of
       None \<Rightarrow> column_types_loop env df pipeline_name rest
     | Some series \<Rightarrow>
        if conversion_raises env expected_type series
        then (log_causal_event ''dq_failure''
                [(''pipeline_name'', pipeline_name), (''reason'', PStr ''type_mismatch''),
                 (''column'', PStr col), (''expected_type'', expected_type)],
              Inl (DataQualityError (DQError (Some ''type_mismatch'') (Some col) None None)))
        else column_types_loop env df pipeline_name rest)"

definition check_column_types :: "env \<Rightarrow> dataframe \<Rightarrow> DQConfig \<Rightarrow> pyval \<Rightarrow> unit run" where
  "check_column_types env df cfg pipeline_name =
    (case column_types cfg of
       PDict items \<Rightarrow> column_types_loop env df pipeline_name items
     | _ \<Rightarrow> ([], Inl AttributeError))"

text \<open>
  The loop of \<^verbatim>\<open>_check_allowed_values\<close>:
  \<^verbatim>\<open>sorted(set(df[col].dropna().unique()) - set(allowed))\<close>.
\<close>

fun allowed_values_loop :: "dataframe \<Rightarrow> pyval \<Rightarrow> pydict \<Rightarrow> unit run" where
  "allowed_values_loop df pipeline_name [] = passed"
| "allowed_values_loop df pipeline_name ((col, allowed) # rest) =
    (case map_of (cols df) col of
       None \<Rightarrow> allowed_values_loop df pipeline_name rest
     | Some series \<Rightarrow>
        eval_then (py_set allowed) (\<lambda>allowed_set.
        eval_then (sorted_cells
                     (filter (\<lambda>c. \<not> list_ex (py_eq (cell_val c)) allowed_set)
                        (remdups (filter (\<lambda>c. c \<noteq> NA) series)))) (\<lambda>bad_values.
          if bad_values \<noteq> []
          then (log_causal_event ''dq_failure''
                  [(''pipeline_name'', pipeline_name), (''reason'', PStr ''allowed_values''),
                   (''column'', PStr col),
                   (''unexpected_values'', PList (map cell_val bad_values)),
                   (''allowed'', allowed)],
                Inl (DataQualityError (DQError (Some ''allowed_values'') (Some col) None None)))
          else allowed_values_loop df pipeline_name rest)))"

definition check_allowed_values :: "dataframe \<Rightarrow> DQConfig \<Rightarrow> pyval \<Rightarrow> unit run" where
  "check_allowed_values df cfg pipeline_name =
    (case allowed_values cfg of
       PDict items \<Rightarrow> allowed_values_loop df pipeline_name items
     | _ \<Rightarrow> ([], Inl AttributeError))"

text \<open>
  The \<^verbatim>\<open>try\<close> block of \<^verbatim>\<open>_check_freshness\<close>.  With no parsed date at all the
  subtraction from today cannot give a number of days: no failure comes of it.
\<close>

definition freshness_try :: "env \<Rightarrow> DQConfig \<Rightarrow> pyval \<Rightarrow> string \<Rightarrow> cell list \<Rightarrow> unit run" where
  "freshness_try env cfg pipeline_name col series =
    (case to_datetime env series of
       None \<Rightarrow> ([], Inl ValueError)
     | Some dt_series \<Rightarrow>
        (case series_max dt_series of
           None \<Rightarrow> ([], Inl TypeError)
         | Some max_date \<Rightarrow>
            (let delta_days = today env - max_date in
             case py_num (freshness_max_days_delay cfg) of
               None \<Rightarrow> ([], Inl TypeError)
             | Some limit \<Rightarrow>
                if real_of_int delta_days > limit
                then (log_causal_event ''dq_failure''
                        [(''pipeline_name'', pipeline_name), (''reason'', PStr ''freshness''),
                         (''column'', PStr col), (''latest_date'', PInt max_date),
                         (''delta_days'', PInt delta_days),
                         (''threshold_days'', freshness_max_days_delay cfg)],
                      Inl (DataQualityError (DQError (Some ''freshness'') (Some col)
                             (Some (real_of_int delta_days)) (Some limit))))
                else passed)))"

text \<open>
  \<^verbatim>\<open>_check_freshness\<close>: the two early returns, then the \<^verbatim>\<open>try\<close> block under
  \<^verbatim>\<open>except Exception: pass\<close>, which keeps what the block logged and drops what it raised.
\<close>

definition check_freshness :: "env \<Rightarrow> dataframe \<Rightarrow> DQConfig \<Rightarrow> pyval \<Rightarrow> unit run" where
  "check_freshness env df cfg pipeline_name =
    (if \<not> py_truthy (freshness_date_column cfg) \<or> \<not> py_truthy (freshness_max_days_delay cfg)
     then passed
     else eval_then (find_column df (freshness_date_column cfg)) (\<lambda>found.
       case found of
         None \<Rightarrow> passed
       | Some (col, series) \<Rightarrow> (fst (freshness_try env cfg pipeline_name col series), Inr ())))"

definition run_validation :: "env \<Rightarrow> dataframe \<Rightarrow> pydict \<Rightarrow> pyval \<Rightarrow> unit run" where
  "run_validation env df config pipeline_name =
    eval_then (build_dq_config env config) (\<lambda>dq_cfg.
      then_run (check_row_count df dq_cfg pipeline_name)
     (then_run (check_null_fraction df dq_cfg pipeline_name)
     (then_run (check_schema df dq_cfg pipeline_name)
     (then_run (check_uniqueness df dq_cfg pipeline_name)
     (then_run (check_column_types env df dq_cfg pipeline_name)
     (then_run (check_allowed_values df dq_cfg pipeline_name)
     (then_run (check_freshness env df dq_cfg pipeline_name)
       (log_causal_event ''validation_success''
          [(''pipeline_name'', pipeline_name), (''rows'', PInt (int (nrows df)))],
        Inr ()))))))))"

section \<open>Diagnosis and healing\<close>

text \<open>
  The healer is handed the caller's configuration object and may write to it, so the
  configuration is held in a store: a reference is an address, and the store gives the
  mapping at each address.  A function of the healer takes the store and returns it
  with its result and the records it logged.  The diagnosis is only read and is passed
  as the mapping it is.  The description strings of the actions are not modelled.
\<close>

type_synonym addr = nat

type_synonym store = "addr \<Rightarrow> pydict"

type_synonym 'a effect = "(exn + 'a) \<times> store \<times> event list"

definition opt_str :: "string option \<Rightarrow> pyval" where
  "opt_str x = (case x of None \<Rightarrow> PNone | Some s \<Rightarrow> PStr s)"

definition opt_float :: "real option \<Rightarrow> pyval" where
  "opt_float x = (case x of None \<Rightarrow> PNone | Some r \<Rightarrow> PFloat r)"

definition diagnose_schema_drift :: "store \<Rightarrow> pyval list \<Rightarrow> addr \<Rightarrow> pydict \<times> store \<times> event list" where
  "diagnose_schema_drift s missing config =
    (let pipeline_name = dict_get (s config) ''pipeline_name'' (PStr ''unknown'');
         action =
           (if list_ex (py_eq (PStr ''date_of_sale'')) missing
            then [(''type'', PStr ''schema_update''), (''from'', PStr ''date_of_sale''),
                  (''to'', PStr ''txn_date'')]
            else [(''type'', PStr ''no_safe_fix'')]);
         diagnosis =
           [(''pipeline_name'', pipeline_name), (''root_cause'', PStr ''schema_drift''),
            (''missing_columns'', PList missing), (''suggested_actions'', PList [PDict action])]
     in (diagnosis, s, log_causal_event ''diagnosis'' diagnosis))"

definition diagnose_dq_issue :: "store \<Rightarrow> dq_error \<Rightarrow> addr \<Rightarrow> pydict \<times> store \<times> event list" where
  "diagnose_dq_issue s err config =
    (let pipeline_name = dict_get (s config) ''pipeline_name'' (PStr ''unknown'');
         root_cause = (case kind err of None \<Rightarrow> ''dq_failure''
                       | Some k \<Rightarrow> if k = [] then ''dq_failure'' else k);
         action =
           (case (column err, observed err) of
              (Some col, Some obs) \<Rightarrow>
                if kind err = Some ''null_fraction'' \<and> col \<noteq> []
                then (let new_threshold =
                            min (max (obs + 0.05) (case threshold err of None \<Rightarrow> 0 | Some t \<Rightarrow> t)) 1
                      in [(''type'', PStr ''dq_update_max_null''), (''column'', PStr col),
                          (''new_threshold'', PFloat new_threshold)])
                else [(''type'', PStr ''no_safe_fix'')]
            | _ \<Rightarrow> [(''type'', PStr ''no_safe_fix'')]);
         diag =
           [(''pipeline_name'', pipeline_name), (''root_cause'', PStr root_cause),
            (''column'', opt_str (column err)), (''observed'', opt_float (observed err)),
            (''threshold'', opt_float (threshold err)), (''suggested_actions'', PList [PDict action])]
     in (diag, s, log_causal_event ''dq_diagnosis'' diag))"

text \<open>
  \<^verbatim>\<open>config.setdefault(section, {})[k] = v\<close> on the mapping \<open>d\<close> of the configuration: the
  section is created when absent, and the write goes to the section's own mapping; a
  section that is no mapping does not support the assignment.
\<close>

definition setdefault_set :: "pydict \<Rightarrow> string \<Rightarrow> string \<Rightarrow> pyval \<Rightarrow> exn + pydict" where
  "setdefault_set d section k v =
    (case map_of d section of
       None \<Rightarrow> Inr (d @ [(section, PDict [(k, v)])])
     | Some (PDict inner) \<Rightarrow> Inr (dict_set d section (PDict (dict_set inner k v)))
     | Some _ \<Rightarrow> Inl TypeError)"

text \<open>An expression that may raise, before the store is written or anything is logged.\<close>

definition raise_or :: "store \<Rightarrow> exn + 'a \<Rightarrow> ('a \<Rightarrow> 'b effect) \<Rightarrow> 'b effect" where
  "raise_or s m f = (case m of Inl e \<Rightarrow> (Inl e, s, []) | Inr x \<Rightarrow> f x)"

text \<open>
  \<^verbatim>\<open>apply_schema_healing\<close> and \<^verbatim>\<open>apply_dq_healing\<close>.  \<^verbatim>\<open>action.get\<close> needs a mapping
  (AttributeError otherwise), and from there on the action is one.
\<close>

definition apply_schema_healing :: "store \<Rightarrow> addr \<Rightarrow> pydict \<Rightarrow> addr effect" where
  "apply_schema_healing s config diagnosis =
    (let actions = dict_get diagnosis ''suggested_actions'' (PList []) in
     if \<not> py_truthy actions then (Inr config, s, [])
     else
       raise_or s (py_first actions) (\<lambda>action.
         case action of
           PDict a \<Rightarrow>
             if dict_get a ''type'' PNone \<noteq> PStr ''schema_update'' then (Inr config, s, [])
             else
               raise_or s (dict_item a ''from'') (\<lambda>from_col.
               raise_or s (dict_item a ''to'') (\<lambda>to_col.
               raise_or s (py_get (dict_get (s config) ''schema'' (PDict []))
                             ''required_columns'' (PList [])) (\<lambda>old_cols.
               raise_or s (py_list old_cols) (\<lambda>old_list.
                 let new_cols = map (\<lambda>c. if py_eq c from_col then to_col else c) old_list in
                 raise_or s (setdefault_set (s config) ''schema'' ''required_columns''
                               (PList new_cols)) (\<lambda>d'.
                   (Inr config, s(config := d'),
                    log_causal_event ''healing_applied''
                      [(''action_type'', PStr ''schema_update''), (''from'', from_col),
                       (''to'', to_col), (''old_required_columns'', old_cols),
                       (''new_required_columns'', PList new_cols)]))))))
         | _ \<Rightarrow> (Inl AttributeError, s, [])))"

definition apply_dq_healing :: "env \<Rightarrow> store \<Rightarrow> addr \<Rightarrow> pydict \<Rightarrow> addr effect" where
  "apply_dq_healing env s config diagnosis =
    (let actions = dict_get diagnosis ''suggested_actions'' (PList []) in
     if \<not> py_truthy actions then (Inr config, s, [])
     else
       raise_or s (py_first actions) (\<lambda>action.
         case action of
           PDict a \<Rightarrow>
             if dict_get a ''type'' PNone = PStr ''dq_update_max_null''
             then
               raise_or s (dict_item a ''new_threshold'') (\<lambda>new_thr.
               raise_or s (py_float env new_thr) (\<lambda>value_float.
               raise_or s (setdefault_set (s config) ''data_quality'' ''max_null_fraction''
                             (PFloat value_float)) (\<lambda>d'.
                 (Inr config, s(config := d'),
                  log_causal_event ''healing_applied''
                    [(''action_type'', PStr ''dq_update_max_null''),
                     (''column'', dict_get a ''column'' PNone),
                     (''new_threshold'', new_thr)]))))
             else (Inr config, s, [])
         | _ \<Rightarrow> (Inl AttributeError, s, [])))"

section \<open>The order of the checks, as the specification words it\<close>

text \<open>
  The specification lists the checks as row count, null fraction, schema presence,
  uniqueness, type conformance, allowed values, freshness, and asks for the first
  failure in that order.  \<open>first_failure\<close> is that reading: it goes through a list of
  outcomes and stops at the first one that raised.
\<close>

definition checks_in_order :: "env \<Rightarrow> dataframe \<Rightarrow> DQConfig \<Rightarrow> pyval \<Rightarrow> unit run list" where
  "checks_in_order env df cfg pipeline_name =
    [check_row_count df cfg pipeline_name,
     check_null_fraction df cfg pipeline_name,
     check_schema df cfg pipeline_name,
     check_uniqueness df cfg pipeline_name,
     check_column_types env df cfg pipeline_name,
     check_allowed_values df cfg pipeline_name,
     check_freshness env df cfg pipeline_name]"

fun first_failure :: "unit run list \<Rightarrow> unit run" where
  "first_failure [] = passed"
| "first_failure (c # cs) =
    (case snd c of
       Inl e \<Rightarrow> (fst c, Inl e)
     | Inr u \<Rightarrow> (fst c @ fst (first_failure cs), snd (first_failure cs)))"

section \<open>Example data\<close>

text \<open>\<^verbatim>\<open>DEFAULT_CONFIG_YAML\<close> of \<^verbatim>\<open>main.py\<close>, as \<^verbatim>\<open>yaml.safe_load\<close> reads it.\<close>

definition default_config :: pydict where
  "default_config =
    [(''pipeline_name'', PStr ''daily_sales_processing''),
     (''data_quality'', PDict
        [(''max_null_fraction'', PFloat 0.05),
         (''min_row_count'', PInt 5),
         (''unique_keys'', PList [PStr ''transaction_id''])]),
     (''schema'', PDict
        [(''required_columns'', PList
            [PStr ''transaction_id'', PStr ''customer_id'', PStr ''sales_amount'',
             PStr ''date_of_sale'']),
         (''column_types'', PDict [(''sales_amount'', PStr ''float'')])]),
     (''allowed_values'', PDict
        [(''region'', PList [PStr ''APAC'', PStr ''EMEA'', PStr ''US''])]),
     (''freshness'', PDict
        [(''date_column'', PStr ''date_of_sale''), (''max_days_delay'', PInt 3)])]"

text \<open>What \<^verbatim>\<open>build_dq_config\<close> makes of the default configuration.\<close>

definition default_dq_config :: DQConfig where
  "default_dq_config =
    \<lparr> max_null_fraction = 0.05, min_row_count = 5,
      required_columns = [PStr ''transaction_id'', PStr ''customer_id'',
                          PStr ''sales_amount'', PStr ''date_of_sale''],
      unique_keys = [PStr ''transaction_id''],
      column_types = PDict [(''sales_amount'', PStr ''float'')],
      allowed_values = PDict [(''region'', PList [PStr ''APAC'', PStr ''EMEA'', PStr ''US''])],
      freshness_date_column = PStr ''date_of_sale'',
      freshness_max_days_delay = PInt 3 \<rparr>"

text \<open>
  A clock and parsers for the examples.  Today is 2026-11-03 (day 739923); the two dates
  the examples use parse to their day numbers (2020-01-01 is day 737425, 2026-11-02 is
  day 739922) and a missing cell to NaT; any other cell makes \<open>to_datetime\<close> raise.  No
  string is a number.
\<close>

definition known_dates :: "(string \<times> int) list" where
  "known_dates = [(''2020-01-01'', 737425), (''2026-11-02'', 739922)]"

definition parse_cell :: "cell \<Rightarrow> int option option" where
  "parse_cell c =
    (case c of
       NA \<Rightarrow> Some None
     | Num r \<Rightarrow> None
     | Str s \<Rightarrow> (case map_of known_dates s of None \<Rightarrow> None | Some d \<Rightarrow> Some (Some d)))"

definition example_env :: env where
  "example_env =
    \<lparr> today = 739923,
      float_of_str = (\<lambda>s. None),
      int_of_str = (\<lambda>s. None),
      numeric_str = (\<lambda>s. False),
      to_datetime = (\<lambda>series.
        if list_all (\<lambda>c. parse_cell c \<noteq> None) series
        then Some (map (\<lambda>c. case parse_cell c of None \<Rightarrow> None | Some d \<Rightarrow> d) series)
        else None) \<rparr>"

text \<open>
  Five sales rows that meet every rule of the default configuration but the freshness
  rule: the latest sale is of 2020-01-01.
\<close>

definition stale_frame :: dataframe where
  "stale_frame =
    \<lparr> nrows = 5,
      cols =
        [(''transaction_id'', [Str ''t1'', Str ''t2'', Str ''t3'', Str ''t4'', Str ''t5'']),
         (''customer_id'', [Str ''c1'', Str ''c2'', Str ''c1'', Str ''c3'', Str ''c2'']),
         (''sales_amount'', [Num 10, Num 20, Num 15, Num 30, Num 25]),
         (''date_of_sale'', [Str ''2020-01-01'', Str ''2020-01-01'', Str ''2020-01-01'',
                             Str ''2020-01-01'', Str ''2020-01-01'']),
         (''region'', [Str ''APAC'', Str ''EMEA'', Str ''US'', Str ''US'', Str ''APAC''])] \<rparr>"

text \<open>The same five rows, recent, with the date column renamed to \<^verbatim>\<open>txn_date\<close>.\<close>

definition drifted_frame :: dataframe where
  "drifted_frame =
    \<lparr> nrows = 5,
      cols =
        [(''transaction_id'', [Str ''t1'', Str ''t2'', Str ''t3'', Str ''t4'', Str ''t5'']),
         (''customer_id'', [Str ''c1'', Str ''c2'', Str ''c1'', Str ''c3'', Str ''c2'']),
         (''sales_amount'', [Num 10, Num 20, Num 15, Num 30, Num 25]),
         (''txn_date'', [Str ''2026-11-02'', Str ''2026-11-02'', Str ''2026-11-02'',
                         Str ''2026-11-02'', Str ''2026-11-02'']),
         (''region'', [Str ''APAC'', Str ''EMEA'', Str ''US'', Str ''US'', Str ''APAC''])] \<rparr>"

text \<open>Four rows, without a date column and with one sales amount missing.\<close>

definition short_frame :: dataframe where
  "short_frame =
    \<lparr> nrows = 4,
      cols =
        [(''transaction_id'', [Str ''t1'', Str ''t2'', Str ''t3'', Str ''t4'']),
         (''customer_id'', [Str ''c1'', Str ''c2'', Str ''c1'', Str ''c3'']),
         (''sales_amount'', [Num 10, NA, Num 15, Num 30])] \<rparr>"

text \<open>A store with the default configuration at address 0 and nothing else.\<close>

definition example_store :: store where
  "example_store = (\<lambda>a. [])(0 := default_config)"

definition rename_diagnosis :: pydict where
  "rename_diagnosis = fst (diagnose_schema_drift example_store [PStr ''date_of_sale''] 0)"

text \<open>The default configuration after the rename, and after the null-fraction tuning.\<close>

definition renamed_config :: pydict where
  "renamed_config =
    [(''pipeline_name'', PStr ''daily_sales_processing''),
     (''data_quality'', PDict
        [(''max_null_fraction'', PFloat 0.05),
         (''min_row_count'', PInt 5),
         (''unique_keys'', PList [PStr ''transaction_id''])]),
     (''schema'', PDict
        [(''required_columns'', PList
            [PStr ''transaction_id'', PStr ''customer_id'', PStr ''sales_amount'',
             PStr ''txn_date'']),
         (''column_types'', PDict [(''sales_amount'', PStr ''float'')])]),
     (''allowed_values'', PDict
        [(''region'', PList [PStr ''APAC'', PStr ''EMEA'', PStr ''US''])]),
     (''freshness'', PDict
        [(''date_column'', PStr ''date_of_sale''), (''max_days_delay'', PInt 3)])]"

text \<open>
  The null-fraction failure of a column with one cell in four missing, under the default
  limit, and its diagnosis.
\<close>

definition quarter_missing :: dq_error where
  "quarter_missing = DQError (Some ''null_fraction'') (Some ''sales_amount'') (Some (1 / 4)) (Some 0.05)"

definition null_diagnosis :: pydict where
  "null_diagnosis = fst (diagnose_dq_issue example_store quarter_missing 0)"


section \<open>Validation: the order of the checks\<close>

subsection \<open>Stopping at the first failure\<close>

lemma first_failure_raises:
  "snd (first_failure cs) = Inl e \<Longrightarrow>
     \<exists>i<length cs. snd (cs ! i) = Inl e \<and> (\<forall>j<i. snd (cs ! j) = Inr ())
        \<and> fst (first_failure cs) = concat (map fst (take (Suc i) cs))"
proof (induction cs)
  case Nil
  then show ?case by (simp add: passed_def)
next
  case (Cons c cs)
  show ?case
  proof (cases "snd c")
    case (Inl e')
    with Cons.prems have "e' = e" by simp
    with Inl show ?thesis by (intro exI [of _ 0]) simp
  next
    case (Inr u)
    with Cons.prems have "snd (first_failure cs) = Inl e" by simp
    from Cons.IH [OF this] obtain i where i: "i < length cs" "snd (cs ! i) = Inl e"
      "\<forall>j<i. snd (cs ! j) = Inr ()" "fst (first_failure cs) = concat (map fst (take (Suc i) cs))"
      by blast
    have "\<forall>j<Suc i. snd ((c # cs) ! j) = Inr ()"
      using i(3) Inr by (auto simp: less_Suc_eq_0_disj)
    with i Inr show ?thesis by (intro exI [of _ "Suc i"]) simp
  qed
qed

lemma first_failure_returns:
  "snd (first_failure cs) = Inr () \<Longrightarrow>
     (\<forall>i<length cs. snd (cs ! i) = Inr ()) \<and> fst (first_failure cs) = concat (map fst cs)"
proof (induction cs)
  case Nil
  then show ?case by (simp add: passed_def)
next
  case (Cons c cs)
  then show ?case by (cases "snd c") (auto simp: less_Suc_eq_0_disj)
qed

lemma run_validation_first_failure:
  "build_dq_config env config = Inr cfg \<Longrightarrow>
   run_validation env df config pn =
     then_run (first_failure (checks_in_order env df cfg pn))
       (log_causal_event ''validation_success''
          [(''pipeline_name'', pn), (''rows'', PInt (int (nrows df)))], Inr ())"
  by (simp add: run_validation_def eval_then_def checks_in_order_def then_run_def passed_def
           split: sum.splits)

lemma uniqueness_loop_silent:
  "snd (uniqueness_loop df pn ks) = Inr () \<Longrightarrow> uniqueness_loop df pn ks = passed"
  by (induction ks) (auto simp: eval_then_def Let_def split: sum.splits option.splits if_splits)

lemma uniqueness_loop_log: "length (fst (uniqueness_loop df pn ks)) \<le> 1"
  by (induction ks) (auto simp: eval_then_def Let_def passed_def log_causal_event_def split: sum.splits option.splits if_splits)

lemma column_types_loop_silent:
  "snd (column_types_loop env df pn items) = Inr () \<Longrightarrow> column_types_loop env df pn items = passed"
  by (induction items) (auto split: option.splits if_splits)

lemma column_types_loop_log: "length (fst (column_types_loop env df pn items)) \<le> 1"
  by (induction items) (auto simp: passed_def log_causal_event_def split: option.splits if_splits)

lemma allowed_values_loop_silent:
  "snd (allowed_values_loop df pn items) = Inr () \<Longrightarrow> allowed_values_loop df pn items = passed"
  by (induction items) (auto simp: eval_then_def split: sum.splits option.splits if_splits)

lemma allowed_values_loop_log: "length (fst (allowed_values_loop df pn items)) \<le> 1"
  by (induction items) (auto simp: eval_then_def passed_def log_causal_event_def split: sum.splits option.splits if_splits)

subsection \<open>What a check logs\<close>

text \<open>
  Each of the first six checks logs nothing when it returns; every check logs at most one
  record.
\<close>

lemma check_row_count_silent:
  "snd (check_row_count df cfg pn) = Inr () \<Longrightarrow> check_row_count df cfg pn = passed"
  by (simp add: check_row_count_def split: if_splits)

lemma check_null_fraction_silent:
  "snd (check_null_fraction df cfg pn) = Inr () \<Longrightarrow> check_null_fraction df cfg pn = passed"
  by (simp add: check_null_fraction_def Let_def split: option.splits if_splits)

lemma check_schema_silent:
  "snd (check_schema df cfg pn) = Inr () \<Longrightarrow> check_schema df cfg pn = passed"
  by (simp add: check_schema_def eval_then_def split: sum.splits if_splits)

lemma check_uniqueness_silent:
  "snd (check_uniqueness df cfg pn) = Inr () \<Longrightarrow> check_uniqueness df cfg pn = passed"
  unfolding check_uniqueness_def by (rule uniqueness_loop_silent)

lemma check_column_types_silent:
  "snd (check_column_types env df cfg pn) = Inr () \<Longrightarrow> check_column_types env df cfg pn = passed"
  unfolding check_column_types_def
  by (cases "column_types cfg") (auto intro: column_types_loop_silent)

lemma check_allowed_values_silent:
  "snd (check_allowed_values df cfg pn) = Inr () \<Longrightarrow> check_allowed_values df cfg pn = passed"
  unfolding check_allowed_values_def
  by (cases "allowed_values cfg") (auto intro: allowed_values_loop_silent)

lemma check_freshness_log: "length (fst (check_freshness env df cfg pn)) \<le> 1"
  by (simp add: check_freshness_def eval_then_def freshness_try_def passed_def
        log_causal_event_def Let_def split: sum.splits option.splits)

lemma less_6_cases: "i < 6 \<Longrightarrow> i = 0 \<or> i = 1 \<or> i = 2 \<or> i = 3 \<or> i = 4 \<or> i = (5::nat)"
  by linarith

lemma less_7_cases:
  "i < 7 \<Longrightarrow> i = 0 \<or> i = 1 \<or> i = 2 \<or> i = 3 \<or> i = 4 \<or> i = 5 \<or> i = (6::nat)"
  by linarith

lemma early_checks_silent:
  assumes "i < 6" and "snd (checks_in_order env df cfg pn ! i) = Inr ()"
  shows "checks_in_order env df cfg pn ! i = passed"
  using less_6_cases [OF assms(1)] assms(2)
  by (elim disjE)
     (auto simp: checks_in_order_def
           intro: check_row_count_silent check_null_fraction_silent check_schema_silent
             check_uniqueness_silent check_column_types_silent check_allowed_values_silent)

lemma check_log_at_most_one:
  assumes "i < 7"
  shows "length (fst (checks_in_order env df cfg pn ! i)) \<le> 1"
proof -
  have 0: "length (fst (check_row_count df cfg pn)) \<le> 1"
    by (simp add: check_row_count_def passed_def log_causal_event_def)
  have 1: "length (fst (check_null_fraction df cfg pn)) \<le> 1"
    by (simp add: check_null_fraction_def Let_def passed_def log_causal_event_def
          split: option.splits)
  have 2: "length (fst (check_schema df cfg pn)) \<le> 1"
    by (simp add: check_schema_def eval_then_def passed_def log_causal_event_def
          split: sum.splits)
  have 3: "length (fst (check_uniqueness df cfg pn)) \<le> 1"
    unfolding check_uniqueness_def by (rule uniqueness_loop_log)
  have 4: "length (fst (check_column_types env df cfg pn)) \<le> 1"
    unfolding check_column_types_def
    by (cases "column_types cfg") (simp_all add: column_types_loop_log [simplified])
  have 5: "length (fst (check_allowed_values df cfg pn)) \<le> 1"
    unfolding check_allowed_values_def
    by (cases "allowed_values cfg") (simp_all add: allowed_values_loop_log [simplified])
  show ?thesis
    using less_7_cases [OF assms] 0 1 2 3 4 5 check_freshness_log [of env df cfg pn]
    by (elim disjE) (simp_all add: checks_in_order_def)
qed

lemma concat_silent:
  "i \<le> length cs \<Longrightarrow> \<forall>j<i. cs ! j = passed \<Longrightarrow> concat (map fst (take i cs)) = []"
proof (induction i)
  case 0
  then show ?case by simp
next
  case (Suc i)
  then have "concat (map fst (take i cs)) = []" by simp
  moreover have "take (Suc i) cs = take i cs @ [cs ! i]"
    using Suc.prems(1) by (simp add: take_Suc_conv_app_nth)
  moreover have "fst (cs ! i) = []"
    using Suc.prems(2) by (simp add: passed_def)
  ultimately show ?case by simp
qed

lemma length_checks_in_order: "length (checks_in_order env df cfg pn) = 7"
  by (simp add: checks_in_order_def)

lemma last_check: "checks_in_order env df cfg pn ! 6 = check_freshness env df cfg pn"
  by (simp add: checks_in_order_def)

lemma first_failure_log_raise:
  assumes "i < length cs" and "\<forall>j<i. cs ! j = passed"
  shows "concat (map fst (take (Suc i) cs)) = fst (cs ! i)"
proof -
  have "take (Suc i) cs = take i cs @ [cs ! i]"
    using assms(1) by (simp add: take_Suc_conv_app_nth)
  moreover have "concat (map fst (take i cs)) = []"
    using assms by (intro concat_silent) simp_all
  ultimately show ?thesis by simp
qed

lemma take_7_split:
  assumes len: "length (cs :: unit run list) = 7"
  shows "take 7 cs = take 6 cs @ [cs ! 6]"
proof -
  have "take (Suc 6) cs = take 6 cs @ [cs ! 6]"
    by (rule take_Suc_conv_app_nth) (simp add: len)
  then show ?thesis by simp
qed

lemma concat_seven:
  assumes len: "length (cs :: unit run list) = 7" and silent: "\<forall>i<6. cs ! i = passed"
  shows "concat (map fst cs) = fst (cs ! 6)"
proof -
  have a: "take 7 cs = take 6 cs @ [cs ! 6]" using len by (rule take_7_split)
  have b: "take 7 cs = cs" using len by simp
  have c: "concat (map fst (take 6 cs)) = []"
    using silent len by (intro concat_silent) simp_all
  have "concat (map fst cs) = concat (map fst (take 6 cs @ [cs ! 6]))"
    using a b by simp
  also have "\<dots> = fst (cs ! 6)" using c by simp
  finally show ?thesis .
qed

lemma fail_fast_raise:
  assumes len: "length (cs :: unit run list) = 7"
    and silent6: "\<And>j. j < 6 \<Longrightarrow> snd (cs ! j) = Inr () \<Longrightarrow> cs ! j = passed"
    and Inl: "snd (first_failure cs) = Inl e"
  shows "\<exists>i<7. snd (cs ! i) = Inl e \<and> (\<forall>j<i. cs ! j = passed)
           \<and> fst (first_failure cs) = fst (cs ! i)"
proof -
  from first_failure_raises [OF Inl] obtain i where i: "i < length cs" "snd (cs ! i) = Inl e"
    "\<forall>j<i. snd (cs ! j) = Inr ()" "fst (first_failure cs) = concat (map fst (take (Suc i) cs))"
    by blast
  have i7: "i < 7" using i(1) len by simp
  have silent: "\<forall>j<i. cs ! j = passed"
  proof (intro allI impI)
    fix j assume "j < i"
    with i7 i(3) have "j < 6" "snd (cs ! j) = Inr ()" by simp_all
    then show "cs ! j = passed" by (rule silent6)
  qed
  have log: "fst (first_failure cs) = fst (cs ! i)"
    using i(4) first_failure_log_raise [OF i(1) silent] by simp
  show ?thesis
    using i7 i(2) silent log by (intro exI [of _ i]) simp
qed

lemma fail_fast_return:
  assumes len: "length (cs :: unit run list) = 7"
    and silent6: "\<And>j. j < 6 \<Longrightarrow> snd (cs ! j) = Inr () \<Longrightarrow> cs ! j = passed"
    and ok: "snd (first_failure cs) = Inr ()"
  shows "(\<forall>i<7. snd (cs ! i) = Inr ()) \<and> (\<forall>i<6. cs ! i = passed)
           \<and> fst (first_failure cs) = fst (cs ! 6)"
proof -
  from first_failure_returns [OF ok]
  have all: "\<forall>i<7. snd (cs ! i) = Inr ()" and log: "fst (first_failure cs) = concat (map fst cs)"
    using len by simp_all
  have silent: "\<forall>i<6. cs ! i = passed"
    using all silent6 by simp
  from concat_seven [OF len silent] log all silent show ?thesis by simp
qed

subsection \<open>The examples, evaluated\<close>

lemma build_default_config: "build_dq_config env default_config = Inr default_dq_config"
  by (simp add: build_dq_config_def default_config_def default_dq_config_def dict_get_def
        py_get_def and_then_def or_empty_def)

lemmas eval_defs = eval_then_def then_run_def passed_def log_causal_event_def
  check_row_count_def check_null_fraction_def check_schema_def check_uniqueness_def
  check_column_types_def check_allowed_values_def check_freshness_def freshness_try_def
  isna_mean_def duplicated_sum_def to_numeric_raises_def conversion_raises_def py_set_def
  sorted_cells_def series_max_def and_then_def default_dq_config_def example_env_def
  parse_cell_def known_dates_def Let_def

lemma run_drifted:
  "run_validation example_env drifted_frame default_config pn =
     ([Event ''schema_drift_detected''
         [(''pipeline_name'', pn), (''missing_columns'', PList [PStr ''date_of_sale''])]],
      Inl (SchemaDriftError [PStr ''date_of_sale'']))"
  unfolding run_validation_def build_default_config
  by (simp add: eval_defs drifted_frame_def)

lemma run_short:
  "run_validation example_env short_frame default_config pn =
     ([Event ''dq_failure'' [(''pipeline_name'', pn), (''reason'', PStr ''row_count'')]],
      Inl (DataQualityError (DQError (Some ''row_count'') None (Some 4) (Some 5))))"
  unfolding run_validation_def build_default_config
  by (simp add: eval_defs short_frame_def)

subsection \<open>The schema check on column names\<close>

lemma missing_of_names:
  "missing_of df (map PStr names) =
     Inr (map PStr (filter (\<lambda>c. c \<notin> fst ` set (cols df)) names))"
  by (induction names) (simp_all add: and_then_def map_of_eq_None_iff)

subsection \<open>What the freshness check can return\<close>

text \<open>
  Whatever the \<^verbatim>\<open>try\<close> block raises is dropped, its own freshness failure included: the
  check returns, or raises the TypeError of the column test before the block.
\<close>

lemma check_freshness_outcome:
  "snd (check_freshness env df cfg pn) = Inr () \<or> snd (check_freshness env df cfg pn) = Inl TypeError"
  by (cases "freshness_date_column cfg")
     (auto simp: check_freshness_def eval_then_def passed_def split: option.splits)

lemma check_freshness_never_fails:
  "snd (check_freshness env df cfg pn) \<noteq> Inl (DataQualityError err)"
  using check_freshness_outcome [of env df cfg pn] by auto

lemma stale_dates:
  "to_datetime example_env
     [Str ''2020-01-01'', Str ''2020-01-01'', Str ''2020-01-01'', Str ''2020-01-01'', Str ''2020-01-01'']
   = Some [Some 737425, Some 737425, Some 737425, Some 737425, Some 737425]"
  by (simp add: example_env_def parse_cell_def known_dates_def)

lemma stale_early_checks:
  "check_row_count stale_frame default_dq_config pn = passed"
  "check_null_fraction stale_frame default_dq_config pn = passed"
  "check_schema stale_frame default_dq_config pn = passed"
  "check_uniqueness stale_frame default_dq_config pn = passed"
  "check_column_types example_env stale_frame default_dq_config pn = passed"
  "check_allowed_values stale_frame default_dq_config pn = passed"
  by (simp_all add: eval_defs stale_frame_def)

lemma stale_freshness:
  "check_freshness example_env stale_frame default_dq_config pn =
     ([Event ''dq_failure''
         [(''pipeline_name'', pn), (''reason'', PStr ''freshness''),
          (''column'', PStr ''date_of_sale''), (''latest_date'', PInt 737425),
          (''delta_days'', PInt 2498), (''threshold_days'', PInt 3)]],
      Inr ())"
  by (simp add: check_freshness_def freshness_try_def eval_then_def default_dq_config_def
        stale_frame_def stale_dates series_max_def)
     (simp add: example_env_def log_causal_event_def)

section \<open>Healing: what is written\<close>

subsection \<open>Mappings\<close>

lemma map_of_dict_set: "map_of (dict_set d k v) k' = (if k' = k then Some v else map_of d k')"
  by (induction d) auto

lemma dict_set_same: "map_of d k = Some v \<Longrightarrow> dict_set d k v = d"
  by (induction d) (auto split: if_splits)

lemma setdefault_set_lookup:
  assumes "setdefault_set d section k v = Inr d'"
  shows "\<exists>inner. map_of d' section = Some (PDict inner) \<and> map_of inner k = Some v"
    and "k' \<noteq> section \<Longrightarrow> map_of d' k' = map_of d k'"
  using assms
  by (auto simp: setdefault_set_def map_of_dict_set map_add_def
           split: option.splits pyval.splits)

lemma setdefault_set_again:
  assumes "setdefault_set d section k v = Inr d'"
  shows "setdefault_set d' section k v = Inr d'"
proof -
  from setdefault_set_lookup(1) [OF assms] obtain inner
    where i: "map_of d' section = Some (PDict inner)" "map_of inner k = Some v" by blast
  have "dict_set inner k v = inner" using i(2) by (rule dict_set_same)
  moreover have "dict_set d' section (PDict inner) = d'" using i(1) by (rule dict_set_same)
  ultimately show ?thesis using i(1) by (simp add: setdefault_set_def)
qed

lemma rename_twice:
  "(\<lambda>c. if py_eq c from_col then to_col else c) \<circ> (\<lambda>c. if py_eq c from_col then to_col else c)
     = (\<lambda>c. if py_eq c from_col then to_col else c)"
  by (rule ext) simp

subsection \<open>The ways out of the healing functions\<close>

text \<open>The ways out of \<^verbatim>\<open>apply_schema_healing\<close>: nothing written, or the one write.\<close>

lemma apply_schema_healing_cases:
  assumes "apply_schema_healing s config diagnosis = (r, s1, ev)"
  shows "(s1 = s \<and> ev = [] \<and> (r = Inr config \<or> (\<exists>e. r = Inl e)))
       \<or> (\<exists>a rest from_col to_col old_cols old_list d'.
             dict_get diagnosis ''suggested_actions'' (PList []) = PList (PDict a # rest)
           \<and> dict_get a ''type'' PNone = PStr ''schema_update''
           \<and> map_of a ''from'' = Some from_col \<and> map_of a ''to'' = Some to_col
           \<and> py_get (dict_get (s config) ''schema'' (PDict [])) ''required_columns'' (PList [])
               = Inr old_cols
           \<and> py_list old_cols = Inr old_list
           \<and> setdefault_set (s config) ''schema'' ''required_columns''
                (PList (map (\<lambda>c. if py_eq c from_col then to_col else c) old_list)) = Inr d'
           \<and> r = Inr config \<and> s1 = s(config := d'))"
proof (cases "py_truthy (dict_get diagnosis ''suggested_actions'' (PList []))")
  case False
  with assms show ?thesis by (auto simp: apply_schema_healing_def)
next
  case True
  show ?thesis
  proof (cases "py_first (dict_get diagnosis ''suggested_actions'' (PList []))")
    case (Inl e)
    with assms True show ?thesis by (auto simp: apply_schema_healing_def raise_or_def)
  next
    case (Inr action)
    from Inr obtain rest where acts:
      "dict_get diagnosis ''suggested_actions'' (PList []) = PList (action # rest)
       \<or> (\<exists>c cs. action = PStr [c])"
      by (cases "dict_get diagnosis ''suggested_actions'' (PList [])" rule: py_first.cases) auto
    show ?thesis
    proof (cases action)
      case (PDict a)
      with acts have acts': "dict_get diagnosis ''suggested_actions'' (PList []) = PList (PDict a # rest)"
        by auto
      from assms True Inr PDict acts' show ?thesis
        by (auto simp: apply_schema_healing_def raise_or_def dict_item_def Let_def
                 split: if_splits option.splits sum.splits)
    qed (use assms True Inr in \<open>auto simp: apply_schema_healing_def raise_or_def\<close>)
  qed
qed


lemma apply_rename:
  "apply_schema_healing example_store 0 rename_diagnosis =
     (Inr 0, example_store(0 := renamed_config),
      [Event ''healing_applied''
         [(''action_type'', PStr ''schema_update''), (''from'', PStr ''date_of_sale''),
          (''to'', PStr ''txn_date''),
          (''old_required_columns'', PList [PStr ''transaction_id'', PStr ''customer_id'',
             PStr ''sales_amount'', PStr ''date_of_sale'']),
          (''new_required_columns'', PList [PStr ''transaction_id'', PStr ''customer_id'',
             PStr ''sales_amount'', PStr ''txn_date''])]])"
  by (simp add: apply_schema_healing_def rename_diagnosis_def diagnose_schema_drift_def
        example_store_def default_config_def renamed_config_def dict_get_def raise_or_def
        dict_item_def py_get_def setdefault_set_def log_causal_event_def Let_def)


subsection \<open>What a healing call that returns has written\<close>







subsection \<open>Rebuilding the rule configuration after the tuning\<close>

lemma build_section_mapping:
  assumes "build_dq_config env d = Inr cfg"
  shows "map_of d ''data_quality'' = None \<or> (\<exists>inner. map_of d ''data_quality'' = Some (PDict inner))"
proof (cases "map_of d ''data_quality''")
  case None
  then show ?thesis by simp
next
  case (Some v)
  with assms show ?thesis
    by (cases v) (simp_all add: build_dq_config_def dict_get_def py_get_def and_then_def)
qed

lemma build_depends_on:
  assumes "dict_get d' ''schema'' (PDict []) = dict_get d ''schema'' (PDict [])"
    and "dict_get d' ''allowed_values'' (PDict []) = dict_get d ''allowed_values'' (PDict [])"
    and "dict_get d' ''freshness'' (PDict []) = dict_get d ''freshness'' (PDict [])"
    and "dict_get d ''data_quality'' (PDict []) = PDict dq"
    and "dict_get d' ''data_quality'' (PDict []) = PDict dq'"
    and "dict_get dq' ''min_row_count'' (PInt 0) = dict_get dq ''min_row_count'' (PInt 0)"
    and "dict_get dq' ''unique_keys'' (PList []) = dict_get dq ''unique_keys'' (PList [])"
    and "dict_get dq' ''max_null_fraction'' (PFloat 1) = PFloat x"
    and "build_dq_config env d = Inr cfg"
  shows "build_dq_config env d' = Inr (cfg\<lparr>max_null_fraction := x\<rparr>)"
  using assms(9)
  unfolding build_dq_config_def assms(1-8) Let_def py_get_def pyval.case
  by (auto simp: and_then_def split: sum.splits)

lemma build_after_tuning:
  assumes "build_dq_config env d = Inr cfg"
  shows "\<exists>d'. setdefault_set d ''data_quality'' ''max_null_fraction'' (PFloat x) = Inr d'
              \<and> build_dq_config env d' = Inr (cfg\<lparr>max_null_fraction := x\<rparr>)"
proof -
  from build_section_mapping [OF assms]
  consider (absent) "map_of d ''data_quality'' = None"
    | (present) inner where "map_of d ''data_quality'' = Some (PDict inner)" by auto
  then show ?thesis
  proof cases
    case absent
    let ?d' = "d @ [(''data_quality'', PDict [(''max_null_fraction'', PFloat x)])]"
    have set: "setdefault_set d ''data_quality'' ''max_null_fraction'' (PFloat x) = Inr ?d'"
      using absent by (simp add: setdefault_set_def)
    have "build_dq_config env ?d' = Inr (cfg\<lparr>max_null_fraction := x\<rparr>)"
    proof (rule build_depends_on [where dq = "[]" and dq' = "[(''max_null_fraction'', PFloat x)]"])
      show "build_dq_config env d = Inr cfg" by (rule assms)
    qed (use absent in \<open>simp_all add: dict_get_def map_add_def split: option.splits\<close>)
    with set show ?thesis by blast
  next
    case present
    let ?d' = "dict_set d ''data_quality'' (PDict (dict_set inner ''max_null_fraction'' (PFloat x)))"
    have set: "setdefault_set d ''data_quality'' ''max_null_fraction'' (PFloat x) = Inr ?d'"
      using present by (simp add: setdefault_set_def)
    have "build_dq_config env ?d' = Inr (cfg\<lparr>max_null_fraction := x\<rparr>)"
    proof (rule build_depends_on [where dq = inner
             and dq' = "dict_set inner ''max_null_fraction'' (PFloat x)"])
      show "build_dq_config env d = Inr cfg" by (rule assms)
    qed (use present in \<open>simp_all add: dict_get_def map_of_dict_set\<close>)
    with set show ?thesis by blast
  qed
qed

section \<open>The claims\<close>

text \<open>
  Claim C1.  Whenever the configuration can be built, \<^verbatim>\<open>run_validation\<close> goes through the
  checks in the order row count, null fraction, schema presence, uniqueness, type
  conformance, allowed values, freshness, and stops at the first one that raises: the
  exception it raises is the one of the first check that raised, every check before it
  returned and logged nothing, the log holds what that one check logged, and this is at
  most one record.  When the call returns, every check returned, the first six logged
  nothing, and the log is what the freshness check logged followed by the
  \<^verbatim>\<open>validation_success\<close> record.
\<close>

theorem run_validation_fail_fast:
  assumes "build_dq_config env config = Inr cfg"
  shows "case snd (run_validation env df config pn) of
           Inl e \<Rightarrow>
             (\<exists>i<7. snd (checks_in_order env df cfg pn ! i) = Inl e
                \<and> (\<forall>j<i. checks_in_order env df cfg pn ! j = passed)
                \<and> fst (run_validation env df config pn) = fst (checks_in_order env df cfg pn ! i))
             \<and> length (fst (run_validation env df config pn)) \<le> 1
         | Inr u \<Rightarrow>
             (\<forall>i<7. snd (checks_in_order env df cfg pn ! i) = Inr ())
             \<and> (\<forall>i<6. checks_in_order env df cfg pn ! i = passed)
             \<and> fst (run_validation env df config pn) =
                 fst (check_freshness env df cfg pn) @
                 log_causal_event ''validation_success''
                   [(''pipeline_name'', pn), (''rows'', PInt (int (nrows df)))]"
proof -
  define cs where "cs = checks_in_order env df cfg pn"
  define ok :: "unit run" where "ok = (log_causal_event ''validation_success''
                [(''pipeline_name'', pn), (''rows'', PInt (int (nrows df)))], Inr ())"
  have len: "length cs = 7" unfolding cs_def by (rule length_checks_in_order)
  have rv: "run_validation env df config pn = then_run (first_failure cs) ok"
    unfolding cs_def ok_def by (rule run_validation_first_failure [OF assms])
  have silent6: "cs ! j = passed" if "j < 6" "snd (cs ! j) = Inr ()" for j
    using that unfolding cs_def by (rule early_checks_silent)
  have last: "cs ! 6 = check_freshness env df cfg pn"
    unfolding cs_def by (rule last_check)
  show ?thesis
  proof (cases "snd (first_failure cs)")
    case (Inl e)
    have s: "snd (run_validation env df config pn) = Inl e"
      unfolding rv then_run_def Inl by simp
    have f: "fst (run_validation env df config pn) = fst (first_failure cs)"
      unfolding rv then_run_def Inl by simp
    from fail_fast_raise [OF len silent6 Inl]
    obtain i where i: "i < 7" "snd (cs ! i) = Inl e" "\<forall>j<i. cs ! j = passed"
      "fst (first_failure cs) = fst (cs ! i)" by blast
    have one: "length (fst (cs ! i)) \<le> 1"
      unfolding cs_def using i(1) by (rule check_log_at_most_one)
    have ex: "\<exists>i<7. snd (cs ! i) = Inl e \<and> (\<forall>j<i. cs ! j = passed)
                \<and> fst (first_failure cs) = fst (cs ! i)"
      using i by blast
    have one': "length (fst (first_failure cs)) \<le> 1" using one i(4) by simp
    from ex one' show ?thesis
      unfolding s f sum.case cs_def by (rule conjI)
  next
    case (Inr u)
    then have ok': "snd (first_failure cs) = Inr ()" by simp
    have s: "snd (run_validation env df config pn) = Inr ()"
      unfolding rv then_run_def ok' by (simp add: ok_def)
    have f: "fst (run_validation env df config pn) = fst (first_failure cs) @ fst ok"
      unfolding rv then_run_def ok' by simp
    from fail_fast_return [OF len silent6 ok']
    have r: "(\<forall>i<7. snd (cs ! i) = Inr ()) \<and> (\<forall>i<6. cs ! i = passed)
           \<and> fst (first_failure cs) @ fst ok = fst (check_freshness env df cfg pn) @ fst ok"
      unfolding last by simp
    then show ?thesis
      unfolding s f sum.case cs_def ok_def fst_conv .
  qed
qed

theorem run_validation_fail_fast_witness:
  "(\<exists>i<7. snd (checks_in_order example_env drifted_frame default_dq_config
               (PStr ''daily_sales_processing'') ! i) = Inl (SchemaDriftError [PStr ''date_of_sale''])
      \<and> (\<forall>j<i. checks_in_order example_env drifted_frame default_dq_config
                  (PStr ''daily_sales_processing'') ! j = passed)
      \<and> [Event ''schema_drift_detected''
            [(''pipeline_name'', PStr ''daily_sales_processing''),
             (''missing_columns'', PList [PStr ''date_of_sale''])]] =
          fst (checks_in_order example_env drifted_frame default_dq_config
                 (PStr ''daily_sales_processing'') ! i))
   \<and> snd (run_validation example_env drifted_frame default_config
            (PStr ''daily_sales_processing'')) = Inl (SchemaDriftError [PStr ''date_of_sale''])"
  using run_validation_fail_fast [OF build_default_config,
          of example_env drifted_frame "PStr ''daily_sales_processing''"]
  unfolding run_drifted snd_conv fst_conv sum.case
  by simp

text \<open>
  Claim C9.  For a configuration whose \<^verbatim>\<open>min_row_count\<close> is a positive \<open>N\<close>, validating
  a dataset of \<open>N - 1\<close> rows raises the \<^verbatim>\<open>row_count\<close> failure with observed \<open>N - 1\<close> and
  threshold \<open>N\<close>, and a dataset of exactly \<open>N\<close> rows passes the row-count check.
\<close>

theorem row_count_inclusive:
  assumes "build_dq_config env config = Inr cfg" and "min_row_count cfg = N" and "0 < N"
  shows "(int (nrows df) = N - 1 \<longrightarrow>
            snd (run_validation env df config pipeline_name) =
              Inl (DataQualityError (DQError (Some ''row_count'') None
                     (Some (real_of_int (N - 1))) (Some (real_of_int N)))))
       \<and> (int (nrows df') = N \<longrightarrow> check_row_count df' cfg pipeline_name = passed)"
  using assms
  by (auto simp: run_validation_def eval_then_def then_run_def check_row_count_def)

theorem row_count_inclusive_witness:
  "snd (run_validation example_env short_frame default_config (PStr ''daily_sales_processing'')) =
     Inl (DataQualityError (DQError (Some ''row_count'') None (Some 4) (Some 5)))
   \<and> check_row_count stale_frame default_dq_config (PStr ''daily_sales_processing'') = passed"
  using row_count_inclusive [OF build_default_config, of 5 short_frame example_env
          "PStr ''daily_sales_processing''" stale_frame]
  by (simp add: short_frame_def stale_frame_def default_dq_config_def)

text \<open>
  Claim C10.  The null-fraction check looks at the column named \<^verbatim>\<open>sales_amount\<close> and at
  nothing else: it passes, silently, whenever the dataset has no column of that name; its
  outcome is the same for two datasets that agree on that column and two configurations
  that agree on \<^verbatim>\<open>max_null_fraction\<close>, whatever columns the configurations name; and the
  only failure it raises is \<^verbatim>\<open>null_fraction\<close> on \<^verbatim>\<open>sales_amount\<close>.
\<close>

theorem null_fraction_column_fixed:
  "(map_of (cols df) ''sales_amount'' = None \<longrightarrow> check_null_fraction df cfg pipeline_name = passed)
 \<and> (map_of (cols df) ''sales_amount'' = map_of (cols df') ''sales_amount''
      \<and> max_null_fraction cfg = max_null_fraction cfg'
      \<longrightarrow> check_null_fraction df cfg pipeline_name = check_null_fraction df' cfg' pipeline_name)
 \<and> (\<forall>e. snd (check_null_fraction df cfg pipeline_name) = Inl e \<longrightarrow>
        (\<exists>obs. e = DataQualityError (DQError (Some ''null_fraction'') (Some ''sales_amount'')
                       (Some obs) (Some (max_null_fraction cfg)))))"
  by (auto simp: check_null_fraction_def passed_def Let_def log_causal_event_def
           split: option.splits if_splits)

theorem null_fraction_column_fixed_witness:
  "check_null_fraction (short_frame\<lparr>cols := [(''amount'', [NA, NA, NA, NA])]\<rparr>) default_dq_config
     (PStr ''daily_sales_processing'') = passed
 \<and> check_null_fraction short_frame default_dq_config (PStr ''daily_sales_processing'') =
     check_null_fraction (short_frame\<lparr>nrows := 4, cols := [(''sales_amount'', [Num 10, NA, Num 15, Num 30])]\<rparr>)
       (default_dq_config\<lparr>required_columns := [PStr ''amount''], min_row_count := 0\<rparr>)
       (PStr ''daily_sales_processing'')
 \<and> snd (check_null_fraction short_frame default_dq_config (PStr ''daily_sales_processing'')) =
     Inl (DataQualityError (DQError (Some ''null_fraction'') (Some ''sales_amount'')
            (Some (1 / 4)) (Some 0.05)))"
  using null_fraction_column_fixed [of "short_frame\<lparr>cols := [(''amount'', [NA, NA, NA, NA])]\<rparr>"
          default_dq_config "PStr ''daily_sales_processing''"]
        null_fraction_column_fixed [of short_frame default_dq_config
          "PStr ''daily_sales_processing''"
          "short_frame\<lparr>nrows := 4, cols := [(''sales_amount'', [Num 10, NA, Num 15, Num 30])]\<rparr>"
          "default_dq_config\<lparr>required_columns := [PStr ''amount''], min_row_count := 0\<rparr>"]
  by (simp add: short_frame_def default_dq_config_def check_null_fraction_def isna_mean_def
        log_causal_event_def Let_def)

text \<open>
  Claim C2, as the code has it.  The schema check comes third.  For a dataset that has
  enough rows and passes the null-fraction check, and that lacks a non-empty part of the
  required column names, validation raises \<^verbatim>\<open>SchemaDriftError\<close> with exactly the missing
  names, in the order of \<^verbatim>\<open>required_columns\<close>, and logs that one record; what the later
  rules (uniqueness, types, allowed values, freshness) would say does not matter.
\<close>

theorem schema_drift_after_size_checks:
  assumes "build_dq_config env config = Inr cfg"
    and "required_columns cfg = map PStr names"
    and "min_row_count cfg \<le> int (nrows df)"
    and "check_null_fraction df cfg pn = passed"
    and "filter (\<lambda>c. c \<notin> fst ` set (cols df)) names \<noteq> []"
  shows "run_validation env df config pn =
           (log_causal_event ''schema_drift_detected''
              [(''pipeline_name'', pn),
               (''missing_columns'',
                PList (map PStr (filter (\<lambda>c. c \<notin> fst ` set (cols df)) names)))],
            Inl (SchemaDriftError (map PStr (filter (\<lambda>c. c \<notin> fst ` set (cols df)) names))))"
proof -
  have rc: "check_row_count df cfg pn = passed"
    using assms(3) by (simp add: check_row_count_def)
  have sc: "check_schema df cfg pn =
           (log_causal_event ''schema_drift_detected''
              [(''pipeline_name'', pn),
               (''missing_columns'',
                PList (map PStr (filter (\<lambda>c. c \<notin> fst ` set (cols df)) names)))],
            Inl (SchemaDriftError (map PStr (filter (\<lambda>c. c \<notin> fst ` set (cols df)) names))))"
    using assms(5) by (simp add: check_schema_def assms(2) missing_of_names eval_then_def)
  show ?thesis
    unfolding run_validation_def assms(1) eval_then_def sum.case rc assms(4) sc
    by (simp add: then_run_def passed_def)
qed

theorem schema_drift_after_size_checks_witness:
  "run_validation example_env drifted_frame default_config (PStr ''daily_sales_processing'') =
     ([Event ''schema_drift_detected''
         [(''pipeline_name'', PStr ''daily_sales_processing''),
          (''missing_columns'', PList [PStr ''date_of_sale''])]],
      Inl (SchemaDriftError [PStr ''date_of_sale'']))"
  using schema_drift_after_size_checks [OF build_default_config,
          of "[''transaction_id'', ''customer_id'', ''sales_amount'', ''date_of_sale'']"
             drifted_frame "PStr ''daily_sales_processing''" example_env]
  by (simp add: default_dq_config_def drifted_frame_def check_null_fraction_def isna_mean_def
        passed_def log_causal_event_def)

text \<open>
  The claim as first stated fails when an earlier check fails too: four rows without
  \<^verbatim>\<open>date_of_sale\<close>, under the default configuration (five rows at least), raise the
  row-count failure and no schema drift.
\<close>

theorem schema_drift_masked_counterexample:
  "PStr ''date_of_sale'' \<in> set (required_columns default_dq_config)
   \<and> ''date_of_sale'' \<notin> fst ` set (cols short_frame)
   \<and> build_dq_config example_env default_config = Inr default_dq_config
   \<and> run_validation example_env short_frame default_config (PStr ''daily_sales_processing'') =
       ([Event ''dq_failure''
           [(''pipeline_name'', PStr ''daily_sales_processing''), (''reason'', PStr ''row_count'')]],
        Inl (DataQualityError (DQError (Some ''row_count'') None (Some 4) (Some 5))))"
  by (simp add: run_short build_default_config) (simp add: default_dq_config_def short_frame_def)

text \<open>
  Claim C3, at a failing input.  Five rows that meet every other rule, with a date column
  that parses and whose latest date is 2498 days before today, against a limit of 3 days:
  the freshness record is logged, the failure raised in the \<^verbatim>\<open>try\<close> block is dropped
  by its \<^verbatim>\<open>except Exception\<close>, and \<^verbatim>\<open>run_validation\<close> returns and logs
  \<^verbatim>\<open>validation_success\<close>.
\<close>

theorem freshness_failure_swallowed:
  "map_of (cols stale_frame) ''date_of_sale'' =
     Some [Str ''2020-01-01'', Str ''2020-01-01'', Str ''2020-01-01'', Str ''2020-01-01'',
           Str ''2020-01-01'']
   \<and> to_datetime example_env
       [Str ''2020-01-01'', Str ''2020-01-01'', Str ''2020-01-01'', Str ''2020-01-01'',
        Str ''2020-01-01'']
     = Some [Some 737425, Some 737425, Some 737425, Some 737425, Some 737425]
   \<and> today example_env - 737425 = 2498
   \<and> freshness_max_days_delay default_dq_config = PInt 3
   \<and> build_dq_config example_env default_config = Inr default_dq_config
   \<and> run_validation example_env stale_frame default_config (PStr ''daily_sales_processing'') =
       ([Event ''dq_failure''
           [(''pipeline_name'', PStr ''daily_sales_processing''), (''reason'', PStr ''freshness''),
            (''column'', PStr ''date_of_sale''), (''latest_date'', PInt 737425),
            (''delta_days'', PInt 2498), (''threshold_days'', PInt 3)],
         Event ''validation_success''
           [(''pipeline_name'', PStr ''daily_sales_processing''), (''rows'', PInt 5)]],
        Inr ())"
proof -
  have "run_validation example_env stale_frame default_config (PStr ''daily_sales_processing'') =
       ([Event ''dq_failure''
           [(''pipeline_name'', PStr ''daily_sales_processing''), (''reason'', PStr ''freshness''),
            (''column'', PStr ''date_of_sale''), (''latest_date'', PInt 737425),
            (''delta_days'', PInt 2498), (''threshold_days'', PInt 3)],
         Event ''validation_success''
           [(''pipeline_name'', PStr ''daily_sales_processing''), (''rows'', PInt 5)]],
        Inr ())"
    unfolding run_validation_def build_default_config eval_then_def sum.case
      stale_early_checks stale_freshness
    by (simp add: then_run_def passed_def log_causal_event_def stale_frame_def)
  moreover have "today example_env - 737425 = 2498" by (simp add: example_env_def)
  moreover have "map_of (cols stale_frame) ''date_of_sale'' =
     Some [Str ''2020-01-01'', Str ''2020-01-01'', Str ''2020-01-01'', Str ''2020-01-01'',
           Str ''2020-01-01'']" by (simp add: stale_frame_def)
  moreover have "freshness_max_days_delay default_dq_config = PInt 3"
    by (simp add: default_dq_config_def)
  ultimately show ?thesis using stale_dates build_default_config by simp
qed




text \<open>
  Claim C5.  For a \<^verbatim>\<open>null_fraction\<close> failure with a (non-empty) column name, an observed
  fraction in \<open>[0, 1]\<close> and a threshold in \<open>[0, 1]\<close> that is the configuration's current
  \<^verbatim>\<open>max_null_fraction\<close>, the diagnosis proposes the single action
  \<^verbatim>\<open>dq_update_max_null\<close> with the new threshold \<open>min (max (observed + 0.05) threshold) 1\<close>;
  applying it returns, and the configuration then builds to the same rules with
  \<^verbatim>\<open>max_null_fraction\<close> at that value, which is neither below the former threshold nor
  below the observed fraction.
\<close>

theorem null_fraction_healing_monotone:
  assumes "kind err = Some ''null_fraction''"
    and "column err = Some col" and "col \<noteq> []"
    and "observed err = Some obs" and "0 \<le> obs" and "obs \<le> 1"
    and "threshold err = Some thr" and "0 \<le> thr" and "thr \<le> 1"
    and "build_dq_config env (s config) = Inr cfg" and "max_null_fraction cfg = thr"
  shows "dict_get (fst (diagnose_dq_issue s err config)) ''suggested_actions'' PNone =
           PList [PDict [(''type'', PStr ''dq_update_max_null''), (''column'', PStr col),
                         (''new_threshold'', PFloat (min (max (obs + 0.05) thr) 1))]]
       \<and> (\<exists>s2 ev2. apply_dq_healing env s config (fst (diagnose_dq_issue s err config)) =
                      (Inr config, s2, ev2)
                  \<and> build_dq_config env (s2 config) =
                      Inr (cfg\<lparr>max_null_fraction := min (max (obs + 0.05) thr) 1\<rparr>))
       \<and> thr \<le> min (max (obs + 0.05) thr) 1
       \<and> obs \<le> min (max (obs + 0.05) thr) 1"
proof -
  let ?new = "min (max (obs + 0.05) thr) 1"
  let ?action = "[(''type'', PStr ''dq_update_max_null''), (''column'', PStr col),
                  (''new_threshold'', PFloat ?new)]"
  have acts: "dict_get (fst (diagnose_dq_issue s err config)) ''suggested_actions'' dflt =
                PList [PDict ?action]" for dflt
    using assms(1-4,7) by (simp add: diagnose_dq_issue_def dict_get_def Let_def)
  from build_after_tuning [OF assms(10), of ?new] obtain d'
    where d': "setdefault_set (s config) ''data_quality'' ''max_null_fraction'' (PFloat ?new) = Inr d'"
      "build_dq_config env d' = Inr (cfg\<lparr>max_null_fraction := ?new\<rparr>)" by blast
  have "apply_dq_healing env s config (fst (diagnose_dq_issue s err config)) =
          (Inr config, s(config := d'),
           log_causal_event ''healing_applied''
             [(''action_type'', PStr ''dq_update_max_null''), (''column'', PStr col),
              (''new_threshold'', PFloat ?new)])"
    using d'(1) unfolding apply_dq_healing_def acts
    by (simp add: raise_or_def dict_item_def dict_get_def)
  with d'(2) have "\<exists>s2 ev2. apply_dq_healing env s config (fst (diagnose_dq_issue s err config)) =
                      (Inr config, s2, ev2)
                  \<and> build_dq_config env (s2 config) = Inr (cfg\<lparr>max_null_fraction := ?new\<rparr>)"
    by simp
  moreover have "thr \<le> ?new" using assms(9) by simp
  moreover have "obs \<le> ?new" using assms(6) by simp
  ultimately show ?thesis using acts by blast
qed

theorem null_fraction_healing_monotone_witness:
  "dict_get null_diagnosis ''suggested_actions'' PNone =
     PList [PDict [(''type'', PStr ''dq_update_max_null''), (''column'', PStr ''sales_amount''),
                   (''new_threshold'', PFloat 0.3)]]
   \<and> (\<exists>s2 ev2. apply_dq_healing example_env example_store 0 null_diagnosis = (Inr 0, s2, ev2)
          \<and> build_dq_config example_env (s2 0) = Inr (default_dq_config\<lparr>max_null_fraction := 0.3\<rparr>))
   \<and> (0.05::real) \<le> 0.3 \<and> (1 / 4 :: real) \<le> 0.3"
  using null_fraction_healing_monotone [of quarter_missing "''sales_amount''" "1 / 4" "0.05"
          example_env example_store 0 default_dq_config]
  by (simp add: quarter_missing_def null_diagnosis_def example_store_def build_default_config)
     (simp add: default_dq_config_def)

text \<open>
  Claim C6.  Applying \<^verbatim>\<open>apply_schema_healing\<close> a second time, with the same diagnosis, to
  the store the first call left gives the same result and leaves that store as it is.
  This holds for every store, configuration and diagnosis, the ones whose first action
  is a \<^verbatim>\<open>schema_update\<close> rename among them.
\<close>

theorem schema_healing_idempotent:
  assumes "apply_schema_healing s config diagnosis = (r, s1, ev)"
  shows "\<exists>ev'. apply_schema_healing s1 config diagnosis = (r, s1, ev')"
proof -
  from apply_schema_healing_cases [OF assms]
  consider (same) "s1 = s"
    | (written) a rest from_col to_col old_list d' where
        "dict_get diagnosis ''suggested_actions'' (PList []) = PList (PDict a # rest)"
        "dict_get a ''type'' PNone = PStr ''schema_update''"
        "map_of a ''from'' = Some from_col" "map_of a ''to'' = Some to_col"
        "setdefault_set (s config) ''schema'' ''required_columns''
           (PList (map (\<lambda>c. if py_eq c from_col then to_col else c) old_list)) = Inr d'"
        "r = Inr config" "s1 = s(config := d')"
    by blast
  then show ?thesis
  proof cases
    case same
    with assms show ?thesis by simp
  next
    case written
    let ?new = "map (\<lambda>c. if py_eq c from_col then to_col else c) old_list"
    from setdefault_set_lookup(1) [OF written(5)] obtain inner
      where inner: "map_of d' ''schema'' = Some (PDict inner)"
        "map_of inner ''required_columns'' = Some (PList ?new)" by blast
    have again: "setdefault_set d' ''schema'' ''required_columns'' (PList ?new) = Inr d'"
      using written(5) by (rule setdefault_set_again)
    have "s1 config = d'" using written(7) by simp
    moreover have "s1(config := d') = s1" using written(7) by simp
    ultimately show ?thesis
      using written(1-4,6) inner again
      by (simp add: apply_schema_healing_def raise_or_def dict_item_def dict_get_def py_get_def
            rename_twice Let_def)
  qed
qed

theorem schema_healing_idempotent_witness:
  "fst (snd (apply_schema_healing example_store 0 rename_diagnosis)) 0 = renamed_config
   \<and> (\<exists>ev'. apply_schema_healing (example_store(0 := renamed_config)) 0 rename_diagnosis =
              (Inr 0, example_store(0 := renamed_config), ev'))"
  using schema_healing_idempotent [OF apply_rename] by (simp add: apply_rename)

text \<open>
  Claim C7.  \<^verbatim>\<open>diagnose_schema_drift\<close> and \<^verbatim>\<open>diagnose_dq_issue\<close> leave the store as it
  is, the configuration included; beside the diagnosis they return, their one effect is
  the log record that holds this diagnosis.
\<close>

theorem diagnosis_reads_only:
  "snd (diagnose_schema_drift s missing config) =
     (s, [Event ''diagnosis'' (fst (diagnose_schema_drift s missing config))])
 \<and> snd (diagnose_dq_issue s err config) =
     (s, [Event ''dq_diagnosis'' (fst (diagnose_dq_issue s err config))])"
  by (simp add: diagnose_schema_drift_def diagnose_dq_issue_def log_causal_event_def Let_def)

theorem diagnosis_reads_only_witness:
  "fst (snd (diagnose_schema_drift example_store [PStr ''date_of_sale''] 0)) 0 = default_config
 \<and> snd (snd (diagnose_schema_drift example_store [PStr ''date_of_sale''] 0)) =
     [Event ''diagnosis'' rename_diagnosis]
 \<and> fst (snd (diagnose_dq_issue example_store quarter_missing 0)) 0 = default_config
 \<and> snd (snd (diagnose_dq_issue example_store quarter_missing 0)) =
     [Event ''dq_diagnosis'' null_diagnosis]"
  using diagnosis_reads_only [of example_store "[PStr ''date_of_sale'']" 0 quarter_missing]
  by (simp add: rename_diagnosis_def null_diagnosis_def example_store_def)

text \<open>
  Claim C8.  When the list of suggested actions is empty, or its first action is a
  mapping whose type is not the one the function applies (\<^verbatim>\<open>schema_update\<close> for
  \<^verbatim>\<open>apply_schema_healing\<close>, \<^verbatim>\<open>dq_update_max_null\<close> for \<^verbatim>\<open>apply_dq_healing\<close>), the
  function returns the configuration it was given, writes nothing, logs nothing and
  raises nothing.
\<close>

theorem healing_no_op:
  "(dict_get diagnosis ''suggested_actions'' (PList []) = PList acts
      \<and> (acts = [] \<or> (\<exists>a rest. acts = PDict a # rest
                          \<and> dict_get a ''type'' PNone \<noteq> PStr ''schema_update''))
    \<longrightarrow> apply_schema_healing s config diagnosis = (Inr config, s, []))
 \<and> (dict_get diagnosis ''suggested_actions'' (PList []) = PList acts
      \<and> (acts = [] \<or> (\<exists>a rest. acts = PDict a # rest
                          \<and> dict_get a ''type'' PNone \<noteq> PStr ''dq_update_max_null''))
    \<longrightarrow> apply_dq_healing env s config diagnosis = (Inr config, s, []))"
  by (auto simp: apply_schema_healing_def apply_dq_healing_def raise_or_def)

theorem healing_no_op_witness:
  "apply_schema_healing example_store 0 null_diagnosis = (Inr 0, example_store, [])
 \<and> apply_dq_healing example_env example_store 0 rename_diagnosis = (Inr 0, example_store, [])
 \<and> apply_schema_healing example_store 0 [(''suggested_actions'', PList [])] = (Inr 0, example_store, [])
 \<and> apply_dq_healing example_env example_store 0 [(''root_cause'', PStr ''uniqueness'')]
      = (Inr 0, example_store, [])"
  using healing_no_op [of null_diagnosis
          "[PDict [(''type'', PStr ''dq_update_max_null''), (''column'', PStr ''sales_amount''),
                   (''new_threshold'', PFloat 0.3)]]" example_store 0]
        healing_no_op [of rename_diagnosis
          "[PDict [(''type'', PStr ''schema_update''), (''from'', PStr ''date_of_sale''),
                   (''to'', PStr ''txn_date'')]]" example_store 0 example_env]
        healing_no_op [of "[(''suggested_actions'', PList [])]" "[]" example_store 0]
        healing_no_op [of "[(''root_cause'', PStr ''uniqueness'')]" "[]" example_store 0 example_env]
  by (simp add: null_diagnosis_def rename_diagnosis_def diagnose_dq_issue_def
        diagnose_schema_drift_def quarter_missing_def dict_get_def Let_def)

end
